theory Spec2Isabelle
  imports Main
begin

section \<open>Integer arithmetic of the source language\<close>

text \<open>
  The typedefs \<^verbatim>\<open>thread\<close> and \<^verbatim>\<open>index\<close> and the fields they type are declared in
  headers that are not part of \<^verbatim>\<open>src/\<close>. All quantities are modelled as mathematical
  integers, that is, below the overflow bound of whatever width those headers choose.
  Division and remainder follow C++: the quotient is truncated towards zero, and a zero
  divisor has no defined result (\<open>None\<close>).
\<close>

definition c_div :: "int \<Rightarrow> int \<Rightarrow> int option" where
  "c_div a b = (if b = 0 then None else Some (sgn a * sgn b * (\<bar>a\<bar> div \<bar>b\<bar>)))"

definition c_mod :: "int \<Rightarrow> int \<Rightarrow> int option" where
  "c_mod a b = (if b = 0 then None else Some (sgn a * (\<bar>a\<bar> mod \<bar>b\<bar>)))"

section \<open>The state read and written by \<^verbatim>\<open>VPManager\<close>\<close>

datatype severity = M_WARNING | M_ERROR

text \<open>
  One record holds the two fields of \<^verbatim>\<open>VPManager\<close> together with the parts of the
  \<^verbatim>\<open>Network\<close> singleton, of \<^verbatim>\<open>Time\<close> and of \<^verbatim>\<open>Communicator\<close> that
  \<^verbatim>\<open>vp_manager.cpp\<close> reads or writes. Messages passed to \<^verbatim>\<open>Network::message\<close> are
  appended to a log. Isabelle names cannot end in an underscore, so the members
  \<^verbatim>\<open>n_threads_\<close> and \<^verbatim>\<open>force_singlethreading_\<close> are the fields \<open>m_n_threads\<close> and
  \<open>m_force_singlethreading\<close>, and \<^verbatim>\<open>n_sim_procs_\<close>, \<^verbatim>\<open>n_rec_procs_\<close> lose the underscore.
\<close>

record kernel =
  m_force_singlethreading :: bool
  m_n_threads :: int
  net_size :: nat
  models_size :: nat
  pristine_models_size :: nat
  has_user_prototypes :: bool
  user_set_delay_extrema :: bool
  simulated :: bool
  resolution_is_default :: bool
  model_defaults_modified :: bool
  n_sim_procs :: int
  n_rec_procs :: int
  nodes_vec_size :: int
  messages :: "(severity \<times> string \<times> string) list"
  network_resets :: nat
  num_processes :: int
  comm_rank :: int
  comm_num_threads :: int

type_synonym dictionary = "string \<rightharpoonup> int"

datatype exn = KernelException string | BadProperty string | DivisionByZero

section \<open>Partition functions\<close>

definition suggest_vp :: "kernel \<Rightarrow> int \<Rightarrow> int option" where
  "suggest_vp k gid = c_mod gid (n_sim_procs k * m_n_threads k)"

definition suggest_rec_vp :: "kernel \<Rightarrow> int \<Rightarrow> int option" where
  "suggest_rec_vp k gid =
     (case c_mod gid (n_rec_procs k * m_n_threads k) of
        None \<Rightarrow> None
      | Some r \<Rightarrow> Some (r + n_sim_procs k * m_n_threads k))"

section \<open>Mapping between virtual processes and threads\<close>

definition vp_to_thread :: "kernel \<Rightarrow> int \<Rightarrow> int option" where
  "vp_to_thread k vp =
     (if vp \<ge> n_sim_procs k * m_n_threads k
      then c_div (vp + n_sim_procs k * (1 - m_n_threads k) - comm_rank k) (n_rec_procs k)
      else c_div vp (n_sim_procs k))"

definition thread_to_vp :: "kernel \<Rightarrow> int \<Rightarrow> int" where
  "thread_to_vp k t =
     (if comm_rank k \<ge> n_sim_procs k
      then t * n_rec_procs k + comm_rank k - n_sim_procs k + n_sim_procs k * m_n_threads k
      else t * n_sim_procs k + comm_rank k)"

section \<open>Collaborators\<close>

definition message :: "severity \<Rightarrow> string \<Rightarrow> string \<Rightarrow> kernel \<Rightarrow> kernel" where
  "message sev origin txt k = k\<lparr>messages := messages k @ [(sev, origin, txt)]\<rparr>"

text \<open>
  Modelled from the spec: \<^verbatim>\<open>Network::reset\<close> is not part of \<^verbatim>\<open>src/\<close>. The spec describes
  it as the topology-reset notification sent to the collaborators that own per-thread
  resources; the model counts the notifications and leaves every other field alone.
\<close>

definition network_reset :: "kernel \<Rightarrow> kernel" where
  "network_reset k = k\<lparr>network_resets := Suc (network_resets k)\<rparr>"

text \<open>
  Modelled from the spec: \<^verbatim>\<open>get_num_threads\<close> and \<^verbatim>\<open>get_num_virtual_processes\<close> are
  inline members of the header, which is not part of \<^verbatim>\<open>src/\<close>. The spec gives the
  derived total as the thread count times the number of processes.
\<close>

definition get_num_threads :: "kernel \<Rightarrow> int" where
  "get_num_threads k = m_n_threads k"

definition get_num_virtual_processes :: "kernel \<Rightarrow> int" where
  "get_num_virtual_processes k = m_n_threads k * num_processes k"

section \<open>Operations of \<^verbatim>\<open>VPManager\<close>\<close>

text \<open>
  \<^verbatim>\<open>set_num_threads\<close> stores the count, resizes \<^verbatim>\<open>nodes_vec_\<close> and tells the
  communicator. The calls into the OpenMP runtime and the memory pools leave no trace in
  the state modelled here.
\<close>

definition set_num_threads :: "int \<Rightarrow> kernel \<Rightarrow> kernel" where
  "set_num_threads n k = k\<lparr>m_n_threads := n, nodes_vec_size := n, comm_num_threads := n\<rparr>"

definition reset :: "kernel \<Rightarrow> kernel" where
  "reset k = set_num_threads 1 (k\<lparr>m_force_singlethreading := False\<rparr>)"

text \<open>The flag \<open>openmp\<close> says whether the file was compiled with \<^verbatim>\<open>_OPENMP\<close> defined.\<close>

definition init :: "bool \<Rightarrow> kernel \<Rightarrow> kernel" where
  "init openmp k =
     (let k1 = (if \<not> openmp \<and> m_n_threads k > 1
                then (message M_ERROR ''Network::reset''
                        ''No multithreading available, using single threading'' k)
                       \<lparr>m_n_threads := 1, m_force_singlethreading := True\<rparr>
                else k)
      in set_num_threads (get_num_threads k1) k1)"

text \<open>
  Both blocks of \<^verbatim>\<open>set_status\<close> begin with the same seven tests, in the same order and
  with the same exceptions; \<open>check_locks\<close> is that sequence.
\<close>

definition check_locks :: "kernel \<Rightarrow> exn option" where
  "check_locks k =
     (if net_size k > 1 then
        Some (KernelException ''Nodes exist: Thread/process number cannot be changed.'')
      else if models_size k > pristine_models_size k then
        Some (KernelException
          ''Custom neuron models exist: Thread/process number cannot be changed.'')
      else if has_user_prototypes k then
        Some (KernelException
          ''Custom synapse types exist: Thread/process number cannot be changed.'')
      else if user_set_delay_extrema k then
        Some (KernelException
          ''Delay extrema have been set: Thread/process number cannot be changed.'')
      else if simulated k then
        Some (KernelException
          ''The network has been simulated: Thread/process number cannot be changed.'')
      else if \<not> resolution_is_default k then
        Some (KernelException
          ''The resolution has been set: Thread/process number cannot be changed.'')
      else if model_defaults_modified k then
        Some (KernelException
          ''Model defaults have been modified: Thread/process number cannot be changed.'')
      else None)"

text \<open>
  The block run when the dictionary holds \<^verbatim>\<open>local_num_threads\<close>. The unqualified call
  \<^verbatim>\<open>reset()\<close> on its last line is inside a member of \<^verbatim>\<open>VPManager\<close>, so it is
  \<^verbatim>\<open>VPManager::reset\<close>.
\<close>

definition set_local_num_threads :: "int \<Rightarrow> kernel \<Rightarrow> exn option \<times> kernel" where
  "set_local_num_threads n_threads k =
     (case check_locks k of
        Some e \<Rightarrow> (Some e, k)
      | None \<Rightarrow>
          (let k1 = (if n_threads > 1 \<and> m_force_singlethreading k
                     then (message M_WARNING ''Network::set_status''
                             ''No multithreading available, using single threading'' k)
                            \<lparr>m_n_threads := 1\<rparr>
                     else k);
               k2 = k1\<lparr>m_n_threads := n_threads\<rparr>
           in (None, reset k2)))"

text \<open>
  The block run when the dictionary holds \<^verbatim>\<open>total_num_virtual_procs\<close>. Its clamp tests
  the local variable \<^verbatim>\<open>n_threads\<close> of \<^verbatim>\<open>set_status\<close>, not the member, so the value
  of that variable is an argument.
\<close>

definition set_total_num_virtual_procs :: "int \<Rightarrow> int \<Rightarrow> kernel \<Rightarrow> exn option \<times> kernel" where
  "set_total_num_virtual_procs n_threads n_vps k =
     (case check_locks k of
        Some e \<Rightarrow> (Some e, k)
      | None \<Rightarrow>
          (case c_mod n_vps (num_processes k) of
             None \<Rightarrow> (Some DivisionByZero, k)
           | Some r \<Rightarrow>
               if r \<noteq> 0 then
                 (Some (BadProperty
                    ''Number of virtual processes (threads*processes) must be an integer multiple of the number of processes. Value unchanged.''), k)
               else
                 (case c_div n_vps (num_processes k) of
                    None \<Rightarrow> (Some DivisionByZero, k)
                  | Some q \<Rightarrow>
                      (let k1 = k\<lparr>m_n_threads := q\<rparr>;
                           k2 = (if n_threads > 1 \<and> m_force_singlethreading k1
                                 then (message M_WARNING ''Network::set_status''
                                         ''No multithreading available, using single threading'' k1)
                                        \<lparr>m_n_threads := 1\<rparr>
                                 else k1);
                           k3 = set_num_threads (m_n_threads k2) k2
                       in (None, network_reset k3)))))"

text \<open>
  \<^verbatim>\<open>set_status\<close> returns the exception that left the function, if any, and the state at
  that moment: an exception undoes nothing. \<^verbatim>\<open>updateValue\<close> writes its third argument
  only when the key is present, so without \<^verbatim>\<open>local_num_threads\<close> the local variable
  \<^verbatim>\<open>n_threads\<close> keeps the indeterminate content it was declared with; that content is
  the argument \<open>n_threads_init\<close>.
\<close>

definition set_status :: "int \<Rightarrow> dictionary \<Rightarrow> kernel \<Rightarrow> exn option \<times> kernel" where
  "set_status n_threads_init d k =
     (let (thrown, n_threads, k1) =
            (case d ''local_num_threads'' of
               None \<Rightarrow> (None, n_threads_init, k)
             | Some n \<Rightarrow> (case set_local_num_threads n k of (e, k') \<Rightarrow> (e, n, k')))
      in case thrown of
           Some e \<Rightarrow> (Some e, k1)
         | None \<Rightarrow>
             (case d ''total_num_virtual_procs'' of
                None \<Rightarrow> (None, k1)
              | Some n_vps \<Rightarrow> set_total_num_virtual_procs n_threads n_vps k1))"

definition get_status :: "dictionary \<Rightarrow> kernel \<Rightarrow> dictionary" where
  "get_status d k =
     d(''local_num_threads'' \<mapsto> m_n_threads k,
       ''total_num_virtual_procs'' \<mapsto> get_num_virtual_processes k)"

section \<open>The locking conditions as the specification lists them\<close>

definition locking_conditions :: "kernel \<Rightarrow> (bool \<times> string) list" where
  "locking_conditions k =
     [(net_size k > 1, ''Nodes exist: Thread/process number cannot be changed.''),
      (models_size k > pristine_models_size k,
         ''Custom neuron models exist: Thread/process number cannot be changed.''),
      (has_user_prototypes k,
         ''Custom synapse types exist: Thread/process number cannot be changed.''),
      (user_set_delay_extrema k,
         ''Delay extrema have been set: Thread/process number cannot be changed.''),
      (simulated k,
         ''The network has been simulated: Thread/process number cannot be changed.''),
      (\<not> resolution_is_default k,
         ''The resolution has been set: Thread/process number cannot be changed.''),
      (model_defaults_modified k,
         ''Model defaults have been modified: Thread/process number cannot be changed.'')]"

definition violated :: "kernel \<Rightarrow> string list" where
  "violated k = map snd (filter fst (locking_conditions k))"

definition locked :: "kernel \<Rightarrow> bool" where
  "locked k =
     (net_size k > 1 \<or> models_size k > pristine_models_size k \<or> has_user_prototypes k \<or>
      user_set_delay_extrema k \<or> simulated k \<or> \<not> resolution_is_default k \<or>
      model_defaults_modified k)"

section \<open>A state for concrete runs\<close>

text \<open>
  The state after construction (\<^verbatim>\<open>n_threads_ = 1\<close>, flag clear) in a run of three
  processes, two simulating and one recording, with nothing yet built: only the root
  node exists and no locking condition holds.
\<close>

definition pristine :: kernel where
  "pristine =
     \<lparr>m_force_singlethreading = False, m_n_threads = 1, net_size = 1, models_size = 0,
      pristine_models_size = 0, has_user_prototypes = False,
      user_set_delay_extrema = False, simulated = False, resolution_is_default = True,
      model_defaults_modified = False, n_sim_procs = 2, n_rec_procs = 1,
      nodes_vec_size = 1, messages = [], network_resets = 0, num_processes = 3,
      comm_rank = 0, comm_num_threads = 1\<rparr>"

section \<open>Facts about the arithmetic and the locking tests\<close>

lemma c_mod_nonneg: "0 \<le> a \<Longrightarrow> 0 < b \<Longrightarrow> c_mod a b = Some (a mod b)"
  by (simp add: c_mod_def sgn_if)

lemma c_div_nonneg: "0 \<le> a \<Longrightarrow> 0 < b \<Longrightarrow> c_div a b = Some (a div b)"
  by (simp add: c_div_def sgn_if)

lemma trunc_rem_zero_iff: "(sgn a * (\<bar>a\<bar> mod \<bar>b\<bar>) = 0) = (b dvd (a::int))"
proof (cases "a = 0")
  case True
  then show ?thesis by simp
next
  case False
  then have "(sgn a * (\<bar>a\<bar> mod \<bar>b\<bar>) = 0) = (\<bar>a\<bar> mod \<bar>b\<bar> = 0)"
    by (simp add: sgn_if)
  also have "\<dots> = (\<bar>b\<bar> dvd \<bar>a\<bar>)"
    by (simp add: mod_eq_0_iff_dvd)
  also have "\<dots> = (b dvd a)"
    by simp
  finally show ?thesis .
qed

lemma c_mod_not_dvd:
  assumes "b \<noteq> 0" and "\<not> b dvd a"
  shows "\<exists>r. c_mod a b = Some r \<and> r \<noteq> 0"
proof -
  have "sgn a * (\<bar>a\<bar> mod \<bar>b\<bar>) \<noteq> 0"
    using assms(2) trunc_rem_zero_iff [of a b] by blast
  moreover have "c_mod a b = Some (sgn a * (\<bar>a\<bar> mod \<bar>b\<bar>))"
    using assms(1) unfolding c_mod_def by (rule if_not_P)
  ultimately show ?thesis by blast
qed

lemma check_locks_unlocked: "\<not> locked k \<Longrightarrow> check_locks k = None"
  unfolding locked_def check_locks_def by simp


lemma check_locks_locked:
  assumes "locked k"
  shows "\<exists>m. check_locks k = Some (KernelException m) \<and> (True, m) \<in> set (locking_conditions k)"
proof -
  consider (nodes) "net_size k > 1"
    | (models) "\<not> net_size k > 1" "models_size k > pristine_models_size k"
    | (synapses) "\<not> net_size k > 1" "\<not> models_size k > pristine_models_size k"
        "has_user_prototypes k"
    | (delays) "\<not> net_size k > 1" "\<not> models_size k > pristine_models_size k"
        "\<not> has_user_prototypes k" "user_set_delay_extrema k"
    | (simulated) "\<not> net_size k > 1" "\<not> models_size k > pristine_models_size k"
        "\<not> has_user_prototypes k" "\<not> user_set_delay_extrema k" "simulated k"
    | (resolution) "\<not> net_size k > 1" "\<not> models_size k > pristine_models_size k"
        "\<not> has_user_prototypes k" "\<not> user_set_delay_extrema k" "\<not> simulated k"
        "\<not> resolution_is_default k"
    | (defaults) "\<not> net_size k > 1" "\<not> models_size k > pristine_models_size k"
        "\<not> has_user_prototypes k" "\<not> user_set_delay_extrema k" "\<not> simulated k"
        "resolution_is_default k" "model_defaults_modified k"
    using assms unfolding locked_def by blast
  then show ?thesis
  proof cases
    case nodes
    then show ?thesis by (simp add: check_locks_def locking_conditions_def)
  next
    case models
    then show ?thesis by (simp add: check_locks_def locking_conditions_def)
  next
    case synapses
    then show ?thesis by (simp add: check_locks_def locking_conditions_def)
  next
    case delays
    then show ?thesis by (simp add: check_locks_def locking_conditions_def)
  next
    case simulated
    then show ?thesis by (simp add: check_locks_def locking_conditions_def)
  next
    case resolution
    then show ?thesis by (simp add: check_locks_def locking_conditions_def)
  next
    case defaults
    then show ?thesis by (simp add: check_locks_def locking_conditions_def)
  qed
qed


lemma mult_pos_int: "1 \<le> (a::int) \<Longrightarrow> 1 \<le> b \<Longrightarrow> 0 < a * b"
  by simp

section \<open>Partition and mapping functions\<close>

text \<open>
  Claim C5. For every id \<open>\<ge> 0\<close> and every topology with at least one simulating process
  and at least one thread, \<open>suggest_vp\<close> returns the id modulo
  \<open>n_sim_procs * n_threads\<close>; the result lies in \<open>[0, n_sim_procs * n_threads)\<close> and
  adding \<open>n_sim_procs * n_threads\<close> to the id does not change it.
\<close>

theorem suggest_vp_mod:
  assumes "0 \<le> gid" and "1 \<le> n_sim_procs k" and "1 \<le> m_n_threads k"
  shows "suggest_vp k gid = Some (gid mod (n_sim_procs k * m_n_threads k))
       \<and> 0 \<le> gid mod (n_sim_procs k * m_n_threads k)
       \<and> gid mod (n_sim_procs k * m_n_threads k) < n_sim_procs k * m_n_threads k
       \<and> suggest_vp k (gid + n_sim_procs k * m_n_threads k) = suggest_vp k gid"
proof -
  have pos: "0 < n_sim_procs k * m_n_threads k"
    using assms(2,3) by (rule mult_pos_int)
  then show ?thesis
    using assms(1) by (simp add: suggest_vp_def c_mod_nonneg)
qed

text \<open>Two simulating processes with three threads each: ids 7 and 13 both go to VP 1.\<close>

theorem suggest_vp_mod_witness:
  "(0::int) \<le> 7 \<and> 1 \<le> n_sim_procs (pristine\<lparr>m_n_threads := 3\<rparr>)
   \<and> 1 \<le> m_n_threads (pristine\<lparr>m_n_threads := 3\<rparr>)
   \<and> suggest_vp (pristine\<lparr>m_n_threads := 3\<rparr>) 7 = Some 1
   \<and> suggest_vp (pristine\<lparr>m_n_threads := 3\<rparr>) 13 = Some 1"
  using suggest_vp_mod [of 7 "pristine\<lparr>m_n_threads := 3\<rparr>"]
  by (simp add: pristine_def)

text \<open>
  Claim C6. For every id \<open>\<ge> 0\<close> with at least one recording process and at least one
  thread, \<open>suggest_rec_vp\<close> returns \<open>n_sim_procs * n_threads\<close> plus the id modulo
  \<open>n_rec_procs * n_threads\<close>; the result lies in the recording range
  \<open>[n_sim_procs * n_threads, n_sim_procs * n_threads + n_rec_procs * n_threads)\<close> and has
  period \<open>n_rec_procs * n_threads\<close>. With two simulating processes, one recording
  process and three threads, id 7 goes to VP 7.
\<close>

theorem suggest_rec_vp_range:
  assumes "0 \<le> gid" and "1 \<le> n_rec_procs k" and "1 \<le> m_n_threads k"
  shows "suggest_rec_vp k gid =
           Some (n_sim_procs k * m_n_threads k + gid mod (n_rec_procs k * m_n_threads k))
       \<and> n_sim_procs k * m_n_threads k
           \<le> n_sim_procs k * m_n_threads k + gid mod (n_rec_procs k * m_n_threads k)
       \<and> n_sim_procs k * m_n_threads k + gid mod (n_rec_procs k * m_n_threads k)
           < n_sim_procs k * m_n_threads k + n_rec_procs k * m_n_threads k
       \<and> suggest_rec_vp k (gid + n_rec_procs k * m_n_threads k) = suggest_rec_vp k gid
       \<and> suggest_rec_vp (k\<lparr>n_sim_procs := 2, n_rec_procs := 1, m_n_threads := 3\<rparr>) 7 = Some 7"
proof -
  have pos: "0 < n_rec_procs k * m_n_threads k"
    using assms(2,3) by (rule mult_pos_int)
  have scenario: "c_mod 7 3 = Some 1"
    by (simp add: c_mod_def)
  from pos show ?thesis
    using assms(1) by (simp add: suggest_rec_vp_def c_mod_nonneg scenario)
qed

text \<open>One recording process with three threads: ids 7 and 10 both go to VP 7.\<close>

theorem suggest_rec_vp_range_witness:
  "(0::int) \<le> 7 \<and> 1 \<le> n_rec_procs (pristine\<lparr>m_n_threads := 3\<rparr>)
   \<and> 1 \<le> m_n_threads (pristine\<lparr>m_n_threads := 3\<rparr>)
   \<and> suggest_rec_vp (pristine\<lparr>m_n_threads := 3\<rparr>) 7 = Some 7
   \<and> suggest_rec_vp (pristine\<lparr>m_n_threads := 3\<rparr>) 10 = Some 7"
  using suggest_rec_vp_range [of 7 "pristine\<lparr>m_n_threads := 3\<rparr>"]
  by (simp add: pristine_def)

text \<open>
  Claim C2. For every thread \<open>t\<close> in \<open>[0, n_threads)\<close> and every caller rank in
  \<open>[0, n_sim_procs + n_rec_procs)\<close>, with both pools and the thread count at least 1,
  \<open>vp_to_thread\<close> applied to \<open>thread_to_vp t\<close> on the same rank returns \<open>t\<close>.
\<close>

theorem vp_to_thread_thread_to_vp:
  assumes t: "0 \<le> t" "t < m_n_threads k"
    and r: "0 \<le> comm_rank k" "comm_rank k < n_sim_procs k + n_rec_procs k"
    and pos: "1 \<le> n_sim_procs k" "1 \<le> n_rec_procs k" "1 \<le> m_n_threads k"
  shows "vp_to_thread k (thread_to_vp k t) = Some t"
proof (cases "comm_rank k \<ge> n_sim_procs k")
  case True
  have tR: "0 \<le> t * n_rec_procs k"
    using t(1) pos(2) by simp
  have vp: "thread_to_vp k t =
      t * n_rec_procs k + comm_rank k - n_sim_procs k + n_sim_procs k * m_n_threads k"
    using True by (simp add: thread_to_vp_def)
  have range: "thread_to_vp k t \<ge> n_sim_procs k * m_n_threads k"
    using True tR unfolding vp by linarith
  have "thread_to_vp k t + n_sim_procs k * (1 - m_n_threads k) - comm_rank k = t * n_rec_procs k"
    unfolding vp by (simp add: algebra_simps)
  then have "vp_to_thread k (thread_to_vp k t) = c_div (t * n_rec_procs k) (n_rec_procs k)"
    using range by (simp add: vp_to_thread_def)
  also have "\<dots> = Some (t * n_rec_procs k div n_rec_procs k)"
    using tR pos(2) by (intro c_div_nonneg) simp_all
  also have "\<dots> = Some t"
    using pos(2) by simp
  finally show ?thesis .
next
  case False
  then have rS: "comm_rank k < n_sim_procs k" by simp
  have vp: "thread_to_vp k t = t * n_sim_procs k + comm_rank k"
    using False by (simp add: thread_to_vp_def)
  have "(t + 1) * n_sim_procs k \<le> m_n_threads k * n_sim_procs k"
    using t(2) pos(1) by (intro mult_right_mono) simp_all
  then have below: "thread_to_vp k t < n_sim_procs k * m_n_threads k"
    using rS unfolding vp by (simp add: algebra_simps)
  have nonneg: "0 \<le> thread_to_vp k t"
    using t(1) pos(1) r(1) unfolding vp by simp
  have "vp_to_thread k (thread_to_vp k t) = c_div (thread_to_vp k t) (n_sim_procs k)"
    using below by (simp add: vp_to_thread_def)
  also have "\<dots> = Some (thread_to_vp k t div n_sim_procs k)"
    using nonneg pos(1) by (intro c_div_nonneg) simp_all
  also have "\<dots> = Some t"
    using rS r(1) pos(1) unfolding vp by simp
  finally show ?thesis .
qed

text \<open>Thread 2 of the recording rank 2 is VP 8, and VP 8 maps back to thread 2.\<close>

theorem vp_to_thread_thread_to_vp_witness:
  "(0::int) \<le> 2 \<and> 2 < m_n_threads (pristine\<lparr>m_n_threads := 3, comm_rank := 2\<rparr>)
   \<and> 0 \<le> comm_rank (pristine\<lparr>m_n_threads := 3, comm_rank := 2\<rparr>)
   \<and> comm_rank (pristine\<lparr>m_n_threads := 3, comm_rank := 2\<rparr>)
       < n_sim_procs (pristine\<lparr>m_n_threads := 3, comm_rank := 2\<rparr>)
         + n_rec_procs (pristine\<lparr>m_n_threads := 3, comm_rank := 2\<rparr>)
   \<and> thread_to_vp (pristine\<lparr>m_n_threads := 3, comm_rank := 2\<rparr>) 2 = 8
   \<and> vp_to_thread (pristine\<lparr>m_n_threads := 3, comm_rank := 2\<rparr>) 8 = Some 2"
  using vp_to_thread_thread_to_vp [of 2 "pristine\<lparr>m_n_threads := 3, comm_rank := 2\<rparr>"]
  by (simp add: pristine_def thread_to_vp_def)

text \<open>
  Claim C10. For every VP in the simulating range \<open>[0, n_sim_procs * n_threads)\<close> the
  result of \<open>vp_to_thread\<close> is \<open>vp div n_sim_procs\<close> whatever the caller's rank, so any
  two ranks get the same thread; a dependence on the rank can only arise in the
  recording range.
\<close>

theorem vp_to_thread_sim_rank_independent:
  assumes "0 \<le> vp" and "vp < n_sim_procs k * m_n_threads k" and "1 \<le> n_sim_procs k"
  shows "vp_to_thread (k\<lparr>comm_rank := r1\<rparr>) vp = Some (vp div n_sim_procs k)
       \<and> vp_to_thread (k\<lparr>comm_rank := r2\<rparr>) vp = vp_to_thread (k\<lparr>comm_rank := r1\<rparr>) vp"
  using assms by (simp add: vp_to_thread_def c_div_nonneg)

text \<open>VP 5 is thread 2 both for rank 0 and for rank 2.\<close>

theorem vp_to_thread_sim_rank_independent_witness:
  "(0::int) \<le> 5 \<and> 5 < n_sim_procs (pristine\<lparr>m_n_threads := 3\<rparr>) * m_n_threads (pristine\<lparr>m_n_threads := 3\<rparr>)
   \<and> vp_to_thread (pristine\<lparr>m_n_threads := 3, comm_rank := 0\<rparr>) 5 = Some 2
   \<and> vp_to_thread (pristine\<lparr>m_n_threads := 3, comm_rank := 2\<rparr>) 5 = Some 2"
  using vp_to_thread_sim_rank_independent [of 5 "pristine\<lparr>m_n_threads := 3\<rparr>" 0 2]
  by (simp add: pristine_def)

text \<open>In the recording range the rank does matter: VP 7 seen from ranks 2 and 0.\<close>

lemma vp_to_thread_rec_rank_dependent:
  "vp_to_thread (pristine\<lparr>m_n_threads := 3, comm_rank := 2\<rparr>) 7 = Some 1
   \<and> vp_to_thread (pristine\<lparr>m_n_threads := 3, comm_rank := 0\<rparr>) 7 = Some 3"
  by (simp add: pristine_def vp_to_thread_def c_div_def)

section \<open>The reconfiguration guard\<close>

text \<open>
  With no locking condition and a request that the process count does not divide, the
  second block throws \<^verbatim>\<open>BadProperty\<close> before it writes anything.
\<close>

lemma set_total_num_virtual_procs_not_multiple:
  assumes "\<not> locked k" and "num_processes k \<noteq> 0" and "\<not> num_processes k dvd n_vps"
  shows "set_total_num_virtual_procs n_threads n_vps k =
    (Some (BadProperty
       ''Number of virtual processes (threads*processes) must be an integer multiple of the number of processes. Value unchanged.''), k)"
proof -
  obtain r where "c_mod n_vps (num_processes k) = Some r" and "r \<noteq> 0"
    using c_mod_not_dvd [OF assms(2,3)] by blast
  then show ?thesis
    using check_locks_unlocked [OF assms(1)]
    by (simp add: set_total_num_virtual_procs_def)
qed

text \<open>
  With no locking condition the first block returns normally. It ends in \<open>reset\<close>, so
  it leaves one thread and a clear flag whatever was asked for, and it touches neither
  the locking conditions nor the process count.
\<close>

lemma set_local_num_threads_unlocked:
  assumes "\<not> locked k"
  shows "fst (set_local_num_threads n k) = None"
    and "\<not> locked (snd (set_local_num_threads n k))"
    and "num_processes (snd (set_local_num_threads n k)) = num_processes k"
    and "m_n_threads (snd (set_local_num_threads n k)) = 1"
    and "m_force_singlethreading (snd (set_local_num_threads n k)) = False"
  using assms check_locks_unlocked [OF assms]
  by (simp_all add: set_local_num_threads_def locked_def reset_def set_num_threads_def
      message_def Let_def)

text \<open>
  Claim C3. For every request carrying \<^verbatim>\<open>local_num_threads\<close>, if any of the seven
  locking conditions holds, \<open>set_status\<close> throws a \<^verbatim>\<open>KernelException\<close> whose message is
  that of a locking condition that holds, and the whole state, the thread count
  included, is as it was before the call.
\<close>

theorem set_status_locked_rejects:
  assumes "d ''local_num_threads'' = Some n" and "locked k"
  shows "\<exists>m. set_status n_threads_init d k = (Some (KernelException m), k)
           \<and> (True, m) \<in> set (locking_conditions k)"
proof -
  obtain m where m: "check_locks k = Some (KernelException m)"
      "(True, m) \<in> set (locking_conditions k)"
    using check_locks_locked [OF assms(2)] by blast
  have "set_status n_threads_init d k = (Some (KernelException m), k)"
    using assms(1) m(1) by (simp add: set_status_def set_local_num_threads_def)
  with m(2) show ?thesis by blast
qed

text \<open>After a simulation, a request for four threads is refused and names the simulation.\<close>

theorem set_status_locked_rejects_witness:
  "[''local_num_threads'' \<mapsto> (4::int)] ''local_num_threads'' = Some 4
   \<and> locked (pristine\<lparr>simulated := True\<rparr>)
   \<and> set_status 0 [''local_num_threads'' \<mapsto> 4] (pristine\<lparr>simulated := True\<rparr>) =
       (Some (KernelException
          ''The network has been simulated: Thread/process number cannot be changed.''),
        pristine\<lparr>simulated := True\<rparr>)"
  using set_status_locked_rejects
    [of "[''local_num_threads'' \<mapsto> 4]" 4 "pristine\<lparr>simulated := True\<rparr>" 0]
  by (simp add: pristine_def locked_def locking_conditions_def)

text \<open>
  Claim C7. If the flag \<^verbatim>\<open>force_singlethreading_\<close> is set and no locking condition holds,
  a request for \<^verbatim>\<open>local_num_threads = 8\<close> returns without an exception, leaves a thread
  count of 1 and appends one warning to the message log.
\<close>

theorem set_status_degraded_request:
  assumes "m_force_singlethreading k" and "\<not> locked k"
    and "d ''local_num_threads'' = Some 8" and "d ''total_num_virtual_procs'' = None"
  shows "fst (set_status n_threads_init d k) = None
       \<and> m_n_threads (snd (set_status n_threads_init d k)) = 1
       \<and> messages (snd (set_status n_threads_init d k)) =
           messages k @ [(M_WARNING, ''Network::set_status'',
                          ''No multithreading available, using single threading'')]"
  using assms check_locks_unlocked [OF assms(2)]
  by (simp add: set_status_def set_local_num_threads_def reset_def set_num_threads_def
      message_def Let_def)

text \<open>The same on the pristine state with the flag set.\<close>

theorem set_status_degraded_request_witness:
  "m_force_singlethreading (pristine\<lparr>m_force_singlethreading := True\<rparr>)
   \<and> \<not> locked (pristine\<lparr>m_force_singlethreading := True\<rparr>)
   \<and> fst (set_status 0 [''local_num_threads'' \<mapsto> 8]
            (pristine\<lparr>m_force_singlethreading := True\<rparr>)) = None
   \<and> m_n_threads (snd (set_status 0 [''local_num_threads'' \<mapsto> 8]
            (pristine\<lparr>m_force_singlethreading := True\<rparr>))) = 1
   \<and> messages (snd (set_status 0 [''local_num_threads'' \<mapsto> 8]
            (pristine\<lparr>m_force_singlethreading := True\<rparr>))) =
       [(M_WARNING, ''Network::set_status'',
         ''No multithreading available, using single threading'')]"
  using set_status_degraded_request
    [of "pristine\<lparr>m_force_singlethreading := True\<rparr>" "[''local_num_threads'' \<mapsto> 8]" 0]
  by (simp add: pristine_def locked_def)

text \<open>
  Claim C4, amended. For every request carrying \<^verbatim>\<open>total_num_virtual_procs\<close> whose value
  is not a multiple of the number of processes, if no locking condition holds then
  \<open>set_status\<close> throws \<^verbatim>\<open>BadProperty\<close>; if moreover the request does not carry
  \<^verbatim>\<open>local_num_threads\<close>, the state, the thread count included, is unchanged.
\<close>

theorem set_status_not_multiple:
  assumes "d ''total_num_virtual_procs'' = Some n_vps" and "\<not> locked k"
    and "num_processes k \<noteq> 0" and "\<not> num_processes k dvd n_vps"
  shows "fst (set_status n_threads_init d k) =
           Some (BadProperty
             ''Number of virtual processes (threads*processes) must be an integer multiple of the number of processes. Value unchanged.'')
       \<and> (d ''local_num_threads'' = None \<longrightarrow> snd (set_status n_threads_init d k) = k)"
proof (cases "d ''local_num_threads''")
  case None
  then show ?thesis
    using assms(1) set_total_num_virtual_procs_not_multiple [OF assms(2,3,4)]
    by (simp add: set_status_def)
next
  case (Some n)
  obtain e k1 where k1: "set_local_num_threads n k = (e, k1)"
    by (cases "set_local_num_threads n k")
  have e: "e = None" and unlocked: "\<not> locked k1" and procs: "num_processes k1 = num_processes k"
    using set_local_num_threads_unlocked(1,2,3) [OF assms(2), of n] k1 by simp_all
  have "set_total_num_virtual_procs n n_vps k1 =
    (Some (BadProperty
       ''Number of virtual processes (threads*processes) must be an integer multiple of the number of processes. Value unchanged.''), k1)"
    using unlocked assms(3,4) procs
    by (intro set_total_num_virtual_procs_not_multiple) simp_all
  then show ?thesis
    using Some assms(1) k1 e by (simp add: set_status_def)
qed

text \<open>Three processes and a request for ten virtual processes.\<close>

theorem set_status_not_multiple_witness:
  "[''total_num_virtual_procs'' \<mapsto> (10::int)] ''total_num_virtual_procs'' = Some 10
   \<and> \<not> locked pristine \<and> num_processes pristine \<noteq> 0 \<and> \<not> num_processes pristine dvd 10
   \<and> set_status 0 [''total_num_virtual_procs'' \<mapsto> 10] pristine =
       (Some (BadProperty
          ''Number of virtual processes (threads*processes) must be an integer multiple of the number of processes. Value unchanged.''),
        pristine)"
  using set_status_not_multiple [of "[''total_num_virtual_procs'' \<mapsto> 10]" 10 pristine 0]
  by (simp add: pristine_def locked_def prod_eq_iff)

section \<open>Concrete runs\<close>

text \<open>The definitions that a run of \<open>set_status\<close> on a concrete state unfolds.\<close>

lemmas run_defs =
  set_status_def set_local_num_threads_def set_total_num_virtual_procs_def check_locks_def
  c_mod_def c_div_def reset_def set_num_threads_def network_reset_def message_def
  get_status_def get_num_virtual_processes_def get_num_threads_def init_def pristine_def Let_def

text \<open>
  Claim C4 as stated fails in two ways. When a node exists, a request for ten virtual
  processes on three processes is refused with \<^verbatim>\<open>KernelException\<close>, not with
  \<^verbatim>\<open>BadProperty\<close>: the locking tests come first. And from a state with two threads,
  reached through an accepted request for six virtual processes, a request that carries
  both keys runs the first block to its end before the second block throws
  \<^verbatim>\<open>BadProperty\<close>, so the thread count has changed from 2 to 1 when the exception
  leaves.
\<close>

theorem set_status_not_multiple_counterexample:
  "fst (set_status 0 [''total_num_virtual_procs'' \<mapsto> 10] (pristine\<lparr>net_size := 2\<rparr>)) =
     Some (KernelException ''Nodes exist: Thread/process number cannot be changed.'')
   \<and> m_n_threads (snd (set_status 0 [''total_num_virtual_procs'' \<mapsto> 6] pristine)) = 2
   \<and> fst (set_status 0 [''local_num_threads'' \<mapsto> 2, ''total_num_virtual_procs'' \<mapsto> 10]
            (snd (set_status 0 [''total_num_virtual_procs'' \<mapsto> 6] pristine))) =
       Some (BadProperty
         ''Number of virtual processes (threads*processes) must be an integer multiple of the number of processes. Value unchanged.'')
   \<and> m_n_threads
        (snd (set_status 0 [''local_num_threads'' \<mapsto> 2, ''total_num_virtual_procs'' \<mapsto> 10]
               (snd (set_status 0 [''total_num_virtual_procs'' \<mapsto> 6] pristine)))) = 1"
  by (simp add: run_defs)

text \<open>
  Claim C1 on the code: on the pristine state with three processes, a request for
  \<^verbatim>\<open>local_num_threads = 4\<close> is accepted, yet \<open>get_status\<close> then reports
  \<^verbatim>\<open>local_num_threads = 1\<close> and \<^verbatim>\<open>total_num_virtual_procs = 3\<close>, not 4 and 12: the
  block stores 4 and then calls \<open>reset\<close>, which sets the count to 1.
\<close>

theorem set_status_local_num_threads_4:
  "fst (set_status 0 [''local_num_threads'' \<mapsto> 4] pristine) = None
   \<and> get_status Map.empty (snd (set_status 0 [''local_num_threads'' \<mapsto> 4] pristine))
        ''local_num_threads'' = Some 1
   \<and> get_status Map.empty (snd (set_status 0 [''local_num_threads'' \<mapsto> 4] pristine))
        ''total_num_virtual_procs'' = Some 3"
  by (simp add: run_defs)

text \<open>
  A state with the flag set is reached from the pristine state: two threads through
  \<^verbatim>\<open>total_num_virtual_procs = 6\<close>, then \<open>init\<close> in a build without OpenMP.
\<close>

lemma degraded_reachable:
  "init False (snd (set_status 0 [''total_num_virtual_procs'' \<mapsto> 6] pristine)) =
     pristine\<lparr>m_force_singlethreading := True, network_resets := 1,
       messages := [(M_ERROR, ''Network::reset'',
                     ''No multithreading available, using single threading'')]\<rparr>"
  by (simp add: run_defs)

text \<open>
  Claim C8 on the code: with the flag set and three processes, an accepted request for
  \<^verbatim>\<open>total_num_virtual_procs = 9\<close> derives three threads and commits three threads
  without any warning when the local variable \<^verbatim>\<open>n_threads\<close> holds 0; the same happens
  when the request also carries \<^verbatim>\<open>local_num_threads = 1\<close>. The clamp tests that local
  variable, not the derived count.
\<close>

theorem set_status_total_vps_unclamped:
  "fst (set_status 0 [''total_num_virtual_procs'' \<mapsto> 9]
          (pristine\<lparr>m_force_singlethreading := True\<rparr>)) = None
   \<and> m_n_threads (snd (set_status 0 [''total_num_virtual_procs'' \<mapsto> 9]
          (pristine\<lparr>m_force_singlethreading := True\<rparr>))) = 3
   \<and> messages (snd (set_status 0 [''total_num_virtual_procs'' \<mapsto> 9]
          (pristine\<lparr>m_force_singlethreading := True\<rparr>))) = []
   \<and> fst (set_status 0 [''local_num_threads'' \<mapsto> 1, ''total_num_virtual_procs'' \<mapsto> 9]
          (pristine\<lparr>m_force_singlethreading := True\<rparr>)) = None
   \<and> m_n_threads (snd (set_status 0 [''local_num_threads'' \<mapsto> 1, ''total_num_virtual_procs'' \<mapsto> 9]
          (pristine\<lparr>m_force_singlethreading := True\<rparr>))) = 3
   \<and> messages (snd (set_status 0 [''local_num_threads'' \<mapsto> 1, ''total_num_virtual_procs'' \<mapsto> 9]
          (pristine\<lparr>m_force_singlethreading := True\<rparr>))) = []"
  by (simp add: run_defs)

text \<open>
  Claim C9 on the code: with the flag set, an accepted request for
  \<^verbatim>\<open>local_num_threads = 2\<close> leaves the flag clear, because the block ends in \<open>reset\<close>.
\<close>

theorem set_status_clears_degraded_flag:
  "m_force_singlethreading (pristine\<lparr>m_force_singlethreading := True\<rparr>)
   \<and> fst (set_status 0 [''local_num_threads'' \<mapsto> 2]
          (pristine\<lparr>m_force_singlethreading := True\<rparr>)) = None
   \<and> m_force_singlethreading (snd (set_status 0 [''local_num_threads'' \<mapsto> 2]
          (pristine\<lparr>m_force_singlethreading := True\<rparr>))) = False"
  by (simp add: run_defs)

text \<open>
  \<open>reset\<close> itself clears the flag and sets one thread; the locking conditions belong to
  other components and are not touched by it.
\<close>

lemma reset_restores:
  "m_force_singlethreading (reset k) = False \<and> m_n_threads (reset k) = 1
   \<and> locked (reset k) = locked k"
  by (simp add: reset_def set_num_threads_def locked_def)

end
